theory Spec2Isabelle
  imports Main "HOL-Library.AList" "HOL-Library.Multiset"
begin

unbundle bit_operations_syntax

section \<open>A model of \<open>lint/util.py\<close>\<close>

text \<open>
  The module \<open>lint/util.py\<close> resolves the environment of a child process, looks
  executables up on \<open>PATH\<close>, runs a command, decodes and cleans its output, and formats a
  log message about the run. The definitions below follow the Python functions one by
  one and keep their names. Python's \<open>str\<close> is modelled by \<open>string\<close> (one \<open>char\<close> per
  character of the text; the code only ever compares characters with ASCII ones), a
  \<open>bytes\<close> value by a list of numbers, a \<open>dict\<close> from \<open>str\<close> to \<open>str\<close> by an association
  list read with \<open>map_of\<close>, and a raised exception by the left summand of a sum type.
\<close>

subsection \<open>Values, exceptions and effects\<close>

type_synonym bytes = "nat list"

type_synonym dict = "(string \<times> string) list"

datatype error =
    KeyError string
  | UnboundLocalError string
  | ValueError string
  | CollectError string

text \<open>
  The \<open>env\<close> argument of \<open>communicate\<close> is a plain \<open>dict\<close> or a
  \<open>collections.ChainMap\<close>, which has the attribute \<open>maps\<close> (line 251).
\<close>

datatype envarg = PlainEnv dict | ChainEnv "dict list"

text \<open>
  What the module does besides returning values, in the order it happens: log records,
  calls of the owner's callbacks, and the operations on \<open>persist.active_procs\<close> around
  the blocking call \<open>proc.communicate\<close>.
\<close>

datatype event =
    LogInfo string
  | LogError string
  | NotifyFailure
  | OnStderr string
  | Register "nat option" nat
  | Collect nat
  | Deregister "nat option" nat

text \<open>A view of the editor: \<open>view.buffer_id()\<close> and \<open>view.file_name()\<close>.\<close>

record view =
  buffer_id :: nat
  file_name :: "string option"

text \<open>
  The owner \<open>_linter\<close>: its attribute \<open>view\<close> (\<open>None\<close> when it is falsy) and whether
  its attribute \<open>on_stderr\<close> is callable.
\<close>

record linter =
  linter_view :: "view option"
  on_stderr_callable :: bool

text \<open>The value of the "paths" setting for one platform: a single path or a list of paths.\<close>

datatype setting_value = Str string | StrList "string list"

record startupinfo =
  dwFlags :: int
  wShowWindow :: int

record popen_args =
  pa_cmd :: "string list"
  pa_env :: envarg
  pa_cwd :: "string option"
  pa_stdin :: bool
  pa_stdout :: bool
  pa_stderr :: bool
  pa_startupinfo :: "startupinfo option"
  pa_creationflags :: int

text \<open>
  The host: everything the module reads from the operating system, the Python library
  and the editor and does not define itself. \<open>popen\<close> is \<open>subprocess.Popen\<close>
  (\<open>Inl\<close> the message of the exception it raised, \<open>Inr\<close> the handle of the child),
  \<open>proc_communicate\<close> is \<open>proc.communicate(code)\<close> (\<open>Inl\<close> when it raises, \<open>Inr\<close> the
  pair of the collected streams, \<open>None\<close> for a stream that has no pipe), \<open>relpath\<close> is
  \<open>os.path.relpath\<close> (\<open>None\<close> when it raises \<open>ValueError\<close>), \<open>utf8_decode\<close> is
  \<open>bytes.decode('utf8')\<close> (\<open>None\<close> when it raises \<open>UnicodeError\<close>), \<open>locale_decode\<close> is
  \<open>bytes.decode(locale.getpreferredencoding(), errors='replace')\<close>, \<open>pformat_indented\<close>
  is the indented \<open>pprint.pformat\<close> of lines 209 to 213.
\<close>

record host =
  os_name :: string
  platform :: string
  pathsep :: char
  paths_setting :: "(string \<times> setting_value) list"
  info_enabled :: bool
  abspath :: "string \<Rightarrow> string"
  expanduser :: "string \<Rightarrow> string"
  path_join :: "string \<Rightarrow> string \<Rightarrow> string"
  splitext_ext :: "string \<Rightarrow> string"
  isfile :: "string \<Rightarrow> bool"
  access_x :: "string \<Rightarrow> bool"
  relpath :: "string \<Rightarrow> string \<Rightarrow> string option"
  realpath_curdir :: string
  textwrap_indent :: "string \<Rightarrow> string \<Rightarrow> string"
  pformat_indented :: "dict \<Rightarrow> string"
  utf8_encode :: "string \<Rightarrow> bytes"
  utf8_decode :: "bytes \<Rightarrow> string option"
  locale_decode :: "bytes \<Rightarrow> string"
  popen :: "popen_args \<Rightarrow> string + nat"
  proc_communicate :: "nat \<Rightarrow> bytes option \<Rightarrow> string + (bytes option \<times> bytes option)"

text \<open>
  The mutable state of the process: \<open>os.environ\<close>, the registry
  \<open>persist.active_procs\<close>, the one-entry cache of \<open>debug_print_env\<close>
  (\<open>lru_cache(maxsize=1)\<close>) and the effects so far.
\<close>

text \<open>
  Modelled from the spec: \<open>persist.active_procs\<close> is declared in \<open>lint/persist.py\<close>.
  The registry maps an owner key to the handles of its running children, and
  registering "appends the handle to the owner's set (creating the set if absent)": a
  mapping whose missing entries read as the empty list.
\<close>

record state =
  environ :: dict
  active_procs :: "nat option \<Rightarrow> nat list"
  debug_print_env_cache :: "string option"
  trace :: "event list"

subsection \<open>Python built-ins used by the module\<close>

definition NL :: char where
  "NL = CHR 0x0A"

definition ESC :: char where
  "ESC = CHR 0x1B"

text \<open>Truth value of an optional string: \<open>None\<close> and \<open>''\<close> are false.\<close>

fun truthy :: "string option \<Rightarrow> bool" where
  "truthy None = False"
| "truthy (Some s) = (s \<noteq> [])"

text \<open>\<open>sep.join(xs)\<close>.\<close>

fun str_join :: "string \<Rightarrow> string list \<Rightarrow> string" where
  "str_join sep [] = []"
| "str_join sep [x] = x"
| "str_join sep (x # y # ys) = x @ sep @ str_join sep (y # ys)"

text \<open>
  \<open>s.split(sep)\<close> for a separator of one character. The result is never the empty
  list, so the first case of the \<open>case\<close> below is never taken.
\<close>

fun str_split :: "char \<Rightarrow> string \<Rightarrow> string list" where
  "str_split sep [] = [[]]"
| "str_split sep (c # cs) =
     (case str_split sep cs of
        [] \<Rightarrow> [[c]]
      | x # xs \<Rightarrow> if c = sep then [] # x # xs else (c # x) # xs)"

text \<open>\<open>s.replace(a, b)\<close> for single characters.\<close>

definition str_replace :: "char \<Rightarrow> char \<Rightarrow> string \<Rightarrow> string" where
  "str_replace a b s = map (\<lambda>c. if c = a then b else c) s"

text \<open>\<open>str(n)\<close> of a natural number.\<close>

fun digit_char :: "nat \<Rightarrow> char" where
  "digit_char n = ''0123456789'' ! (n mod 10)"

function str_nat :: "nat \<Rightarrow> string" where
  "str_nat n = (if n < 10 then [digit_char n] else str_nat (n div 10) @ [digit_char n])"
  by pat_completeness auto
termination
  by (relation "measure id") auto

text \<open>
  \<open>c.isspace()\<close> on the characters below 256, and whether \<open>s.strip()\<close> is the empty
  string.
\<close>

definition isspace :: "char \<Rightarrow> bool" where
  "isspace c = (of_char c \<in> {9, 10, 11, 12, 13, 28, 29, 30, 31, 32, 133, 160 :: nat})"

definition strip_empty :: "string \<Rightarrow> bool" where
  "strip_empty s = list_all isspace s"

subsection \<open>ANSI colour sequences: \<open>ANSI_COLOR_RE\<close>\<close>

text \<open>
  \<open>ANSI_COLOR_RE = re.compile(r'\033\[[0-9;]*m')\<close> (line 21). A match at the start of a
  string is ESC, \<open>[\<close>, the longest run of digits and semicolons, and \<open>m\<close>: the run
  cannot be cut short, since what follows a shorter run is a digit or a semicolon and
  not \<open>m\<close>. \<open>ANSI_COLOR_RE_match\<close> returns what follows the match.
\<close>

definition sgr_param :: "char \<Rightarrow> bool" where
  "sgr_param c = (c \<in> set ''0123456789;'')"

fun ANSI_COLOR_RE_match :: "string \<Rightarrow> string option" where
  "ANSI_COLOR_RE_match (c1 # c2 # rest) =
     (if c1 = ESC \<and> c2 = CHR ''['' then
        (case dropWhile sgr_param rest of
           [] \<Rightarrow> None
         | m # rest' \<Rightarrow> if m = CHR ''m'' then Some rest' else None)
      else None)"
| "ANSI_COLOR_RE_match _ = None"

lemma ANSI_COLOR_RE_match_shorter:
  "ANSI_COLOR_RE_match s = Some r \<Longrightarrow> length r < length s"
proof (cases s rule: ANSI_COLOR_RE_match.cases)
  case (1 c1 c2 rest)
  assume m: "ANSI_COLOR_RE_match s = Some r"
  have "length (dropWhile sgr_param rest) \<le> length rest"
    by (rule length_dropWhile_le)
  with m 1 show ?thesis
    by (auto split: if_splits list.splits)
qed simp_all

text \<open>
  \<open>ANSI_COLOR_RE.sub('', s)\<close> (line 294): one pass from left to right that drops every
  match and resumes behind it.
\<close>

function ANSI_COLOR_RE_sub :: "string \<Rightarrow> string" where
  "ANSI_COLOR_RE_sub [] = []"
| "ANSI_COLOR_RE_sub (c # cs) =
     (case ANSI_COLOR_RE_match (c # cs) of
        Some rest \<Rightarrow> ANSI_COLOR_RE_sub rest
      | None \<Rightarrow> c # ANSI_COLOR_RE_sub cs)"
  by pat_completeness auto
termination
  by (relation "measure length") (auto dest: ANSI_COLOR_RE_match_shorter)

text \<open>
  Every ESC of the text starts a complete sequence ESC \<open>[\<close> parameters \<open>m\<close>
  (a sequence itself holds no second ESC).
\<close>

function sgr_closed :: "string \<Rightarrow> bool" where
  "sgr_closed [] = True"
| "sgr_closed (c # cs) =
     (case ANSI_COLOR_RE_match (c # cs) of
        Some rest \<Rightarrow> sgr_closed rest
      | None \<Rightarrow> c \<noteq> ESC \<and> sgr_closed cs)"
  by pat_completeness auto
termination
  by (relation "measure length") (auto dest: ANSI_COLOR_RE_match_shorter)

subsection \<open>Decoding: \<open>decode\<close> and \<open>_post_process_fh\<close>\<close>

text \<open>Lines 297 to 312. The argument is \<open>None\<close> for a stream without a pipe.\<close>

definition decode :: "host \<Rightarrow> bytes option \<Rightarrow> string" where
  "decode h b =
     (case b of
        None \<Rightarrow> []
      | Some bs \<Rightarrow>
          if bs = [] then []
          else (case utf8_decode h bs of
                  Some s \<Rightarrow> s
                | None \<Rightarrow> locale_decode h bs))"

text \<open>Lines 292 to 294.\<close>

definition post_process_fh :: "host \<Rightarrow> bytes option \<Rightarrow> string" where
  "post_process_fh h fh = ANSI_COLOR_RE_sub (decode h fh)"

subsection \<open>The environment: \<open>convert_type\<close>, \<open>debug_print_env\<close>, \<open>create_environment\<close>\<close>

text \<open>
  \<open>convert_type(value, [])\<close> as line 122 calls it (\<open>sep\<close> and \<open>default\<close> are \<open>None\<close>):
  a list is returned as it is (line 344), a string becomes a list of one (line 349).
\<close>

fun convert_type :: "setting_value \<Rightarrow> string list" where
  "convert_type (StrList xs) = xs"
| "convert_type (Str x) = [x]"

text \<open>
  Lines 101 to 104. The cache of size one makes a call with the path of the previous
  call do nothing.
\<close>

definition debug_print_env :: "host \<Rightarrow> string \<Rightarrow> state \<Rightarrow> state" where
  "debug_print_env h path s =
     (if debug_print_env_cache s = Some path then s
      else s\<lparr>debug_print_env_cache := Some path,
             trace := trace s @
               [LogInfo (''PATH:'' @ [NL] @
                  textwrap_indent h (str_replace (pathsep h) NL path) ''    '')]\<rparr>)"

text \<open>
  Lines 107 to 132. \<open>env['PATH']\<close> raises \<open>KeyError\<close> when the variable is not set: at
  line 127 when paths are configured, at line 129 when the logger is enabled for INFO.
\<close>

definition create_environment :: "host \<Rightarrow> state \<Rightarrow> (error + dict) \<times> state" where
  "create_environment h s =
     (let env = environ s;
          paths = (case map_of (paths_setting h) (platform h) of
                     Some v \<Rightarrow> map (\<lambda>path. abspath h (expanduser h path)) (convert_type v)
                   | None \<Rightarrow> [])
      in case (if paths \<noteq> [] then
                 (case map_of env ''PATH'' of
                    None \<Rightarrow> Inl (KeyError ''PATH'')
                  | Some p \<Rightarrow>
                      Inr (AList.update ''PATH''
                             (str_join [pathsep h] paths @ [pathsep h] @ p) env))
               else Inr env) of
           Inl e \<Rightarrow> (Inl e, s)
         | Inr env' \<Rightarrow>
             if info_enabled h then
               (case map_of env' ''PATH'' of
                  None \<Rightarrow> (Inl (KeyError ''PATH''), s)
                | Some p \<Rightarrow>
                    if p \<noteq> [] then (Inr env', debug_print_env h p s) else (Inr env', s))
             else (Inr env', s))"

subsection \<open>Looking up executables: \<open>can_exec\<close>, \<open>find_executables\<close>, \<open>which\<close>\<close>

text \<open>Lines 135 to 137.\<close>

definition can_exec :: "host \<Rightarrow> string \<Rightarrow> bool" where
  "can_exec h path = (isfile h path \<and> access_x h path)"

text \<open>
  Line 152: \<open>env.get('PATH', '').split(os.pathsep)\<close>, the entries of PATH; an unset PATH
  reads as the empty string.
\<close>

definition PATH_entries :: "host \<Rightarrow> dict \<Rightarrow> string list" where
  "PATH_entries h env =
     str_split (pathsep h) (case map_of env ''PATH'' of Some p \<Rightarrow> p | None \<Rightarrow> [])"

text \<open>Line 153: the candidate path for one entry of PATH.\<close>

definition candidate :: "host \<Rightarrow> string \<Rightarrow> string \<Rightarrow> string" where
  "candidate h executable base = path_join h (expanduser h base) executable"

text \<open>The body of the loop of \<open>find_executables\<close> (lines 153 to 163) for one entry of PATH.\<close>

definition find_executables_in :: "host \<Rightarrow> string \<Rightarrow> string \<Rightarrow> string list" where
  "find_executables_in h executable base =
     (let path = candidate h executable base
      in if platform h = ''windows'' \<and> splitext_ext h path = [] then
           filter (can_exec h) (map (\<lambda>extension. path @ extension) [''.exe'', ''.cmd'', ''.bat''])
         else if can_exec h path then [path]
         else [])"

text \<open>Lines 148 to 165. The generator is modelled by the list of what it yields.\<close>

definition find_executables :: "host \<Rightarrow> state \<Rightarrow> string \<Rightarrow> (error + string list) \<times> state" where
  "find_executables h s executable =
     (case create_environment h s of
        (Inl e, s') \<Rightarrow> (Inl e, s')
      | (Inr env, s') \<Rightarrow>
          (Inr (concat (map (find_executables_in h executable) (PATH_entries h env))), s'))"

text \<open>Lines 140 to 145: the first path the generator yields, or \<open>None\<close>.\<close>

definition which :: "host \<Rightarrow> state \<Rightarrow> string \<Rightarrow> (error + string option) \<times> state" where
  "which h s cmd =
     (case find_executables h s cmd of
        (Inl e, s') \<Rightarrow> (Inl e, s')
      | (Inr [], s') \<Rightarrow> (Inr None, s')
      | (Inr (path # _), s') \<Rightarrow> (Inr (Some path), s'))"

subsection \<open>The log message: \<open>make_nice_log_message\<close>\<close>

text \<open>\<open>PIPE_TEMPLATE.format(rel_filename)\<close> (line 177).\<close>

definition PIPE_TEMPLATE :: "host \<Rightarrow> string \<Rightarrow> string" where
  "PIPE_TEMPLATE h rel_filename =
     (if os_name h = ''nt'' then '' type '' @ rel_filename @ '' |''
      else '' cat '' @ rel_filename @ '' |'')"

text \<open>\<open>RUNNING_TEMPLATE.format(...)\<close> (lines 171 to 175).\<close>

definition RUNNING_TEMPLATE :: "string \<Rightarrow> string \<Rightarrow> string \<Rightarrow> string \<Rightarrow> string \<Rightarrow> string" where
  "RUNNING_TEMPLATE headline cwd prompt pipe cmd =
     headline @ [NL, NL] @ ''  '' @ cwd @ ''  (working dir)'' @ [NL] @
     ''  '' @ prompt @ pipe @ '' '' @ cmd @ [NL]"

text \<open>\<open>ENV_TEMPLATE.format(env=...)\<close> (lines 178 to 184).\<close>

definition ENV_TEMPLATE :: "string \<Rightarrow> string" where
  "ENV_TEMPLATE env =
     [NL] @ ''  Modified environment:'' @ [NL, NL] @ ''  '' @ env @ [NL, NL] @
     ''  Type: `import os; os.environ` in the Sublime console to get the full environment.'' @
     [NL]"

text \<open>
  Lines 187 to 216. \<open>rel_filename\<close> is assigned at line 194 or at line 196; when the
  view has a file name and \<open>cwd\<close> is falsy neither line runs and the name stays unbound
  (\<open>None\<close> below), so reading it at line 204, which happens only when \<open>is_stdin\<close> is
  true, raises \<open>UnboundLocalError\<close>.
\<close>

definition make_nice_log_message ::
  "host \<Rightarrow> string \<Rightarrow> string list \<Rightarrow> bool \<Rightarrow> string option \<Rightarrow> view option \<Rightarrow> dict option
    \<Rightarrow> error + string" where
  "make_nice_log_message h headline cmd is_stdin cwd vw env =
     (let filename = (case vw of Some v \<Rightarrow> file_name v | None \<Rightarrow> None)
      in case (if truthy filename \<and> truthy cwd then
                 (case relpath h (the filename) (the cwd) of
                    None \<Rightarrow> Inl (ValueError ''relpath'')
                  | Some r \<Rightarrow> Inr (Some r))
               else if \<not> truthy filename then
                 Inr (Some (case vw of
                              Some v \<Rightarrow> ''<buffer '' @ str_nat (buffer_id v) @ ''>''
                            | None \<Rightarrow> ''<?>''))
               else Inr None) of
           Inl e \<Rightarrow> Inl e
         | Inr rel_filename \<Rightarrow>
            (let real_cwd = (if truthy cwd then the cwd else realpath_curdir h)
             in case (if is_stdin then
                        (case rel_filename of
                           None \<Rightarrow> Inl (UnboundLocalError ''rel_filename'')
                         | Some r \<Rightarrow> Inr (PIPE_TEMPLATE h r))
                      else Inr []) of
                  Inl e \<Rightarrow> Inl e
                | Inr pipe \<Rightarrow>
                   (let exec_msg = RUNNING_TEMPLATE headline real_cwd
                          (if os_name h = ''nt'' then ''>'' else ''$'') pipe (str_join '' '' cmd);
                        env_msg = (case env of
                                     None \<Rightarrow> []
                                   | Some d \<Rightarrow>
                                       if d \<noteq> [] then ENV_TEMPLATE (pformat_indented h d)
                                       else [])
                    in Inr (exec_msg @ env_msg))))"

subsection \<open>Running a command: \<open>communicate\<close>\<close>

definition STREAM_STDOUT :: int where
  "STREAM_STDOUT = 1"

definition STREAM_STDERR :: int where
  "STREAM_STDERR = 2"

definition STREAM_BOTH :: int where
  "STREAM_BOTH = STREAM_STDOUT + STREAM_STDERR"

text \<open>
  Lines 315 to 322, with \<open>STARTF_USESTDHANDLES = 256\<close>, \<open>STARTF_USESHOWWINDOW = 1\<close> and
  \<open>SW_HIDE = 0\<close> of \<open>subprocess\<close>.
\<close>

definition create_startupinfo :: "host \<Rightarrow> startupinfo option" where
  "create_startupinfo h =
     (if os_name h = ''nt'' then Some \<lparr>dwFlags = 0 OR (256 OR 1), wShowWindow = 0\<rparr>
      else None)"

text \<open>Lines 325 to 329, with \<open>CREATE_NEW_PROCESS_GROUP = 512\<close>.\<close>

definition get_creationflags :: "host \<Rightarrow> int" where
  "get_creationflags h = (if os_name h = ''nt'' then 512 else 0)"

text \<open>\<open>persist.active_procs[bid].append(proc)\<close> (lines 268 and 269).\<close>

definition active_procs_append :: "nat option \<Rightarrow> nat \<Rightarrow> state \<Rightarrow> state" where
  "active_procs_append bid proc s =
     s\<lparr>active_procs := (active_procs s)(bid := active_procs s bid @ [proc]),
       trace := trace s @ [Register bid proc]\<rparr>"

text \<open>
  \<open>persist.active_procs[bid].remove(proc)\<close> (lines 274 and 275): the first occurrence
  goes, and a handle that is not in the list raises \<open>ValueError\<close>.
\<close>

definition active_procs_remove :: "nat option \<Rightarrow> nat \<Rightarrow> state \<Rightarrow> error + state" where
  "active_procs_remove bid proc s =
     (if proc \<in> set (active_procs s bid) then
        Inr (s\<lparr>active_procs := (active_procs s)(bid := remove1 proc (active_procs s bid)),
                trace := trace s @ [Deregister bid proc]\<rparr>)
      else Inl (ValueError ''list.remove(x): x not in list''))"

text \<open>
  Lines 250 to 253: \<open>dict(ChainMap(*env.maps[0:-1]))\<close>, the maps but the last with the
  earlier one winning, or \<open>None\<close> when \<open>env\<close> has no attribute \<open>maps\<close>.
\<close>

fun augmented_env :: "envarg \<Rightarrow> dict option" where
  "augmented_env (PlainEnv d) = None"
| "augmented_env (ChainEnv maps) = Some (concat (butlast maps))"

text \<open>
  The handler of lines 249 to 261. An exception raised by \<open>make_nice_log_message\<close>
  inside the handler leaves \<open>communicate\<close>.
\<close>

definition communicate_except ::
  "host \<Rightarrow> state \<Rightarrow> string \<Rightarrow> string list \<Rightarrow> bool \<Rightarrow> string option \<Rightarrow> view option
    \<Rightarrow> envarg \<Rightarrow> linter option \<Rightarrow> (error + string option) \<times> state" where
  "communicate_except h s err cmd uses_stdin cwd vw env lntr =
     (case make_nice_log_message h (''  Execution failed'' @ [NL, NL] @ ''  '' @ err)
             cmd uses_stdin cwd vw (augmented_env env) of
        Inl e \<Rightarrow> (Inl e, s)
      | Inr msg \<Rightarrow>
          let s1 = s\<lparr>trace := trace s @ [LogError msg]\<rparr>;
              s2 = (if lntr \<noteq> None then s1\<lparr>trace := trace s1 @ [NotifyFailure]\<rparr> else s1)
          in (Inr (Some []), s2))"

text \<open>
  Lines 277 to 289: the value returned, \<open>Inr None\<close> when the function ends without a
  \<open>return\<close>.
\<close>

definition communicate_return ::
  "host \<Rightarrow> state \<Rightarrow> int \<Rightarrow> linter option \<Rightarrow> bytes option \<times> bytes option
    \<Rightarrow> (error + string option) \<times> state" where
  "communicate_return h s output_stream lntr out =
     (if output_stream = STREAM_STDOUT then (Inr (Some (post_process_fh h (fst out))), s)
      else if output_stream = STREAM_STDERR then (Inr (Some (post_process_fh h (snd out))), s)
      else if output_stream = STREAM_BOTH then
        (if (case lntr of Some l \<Rightarrow> on_stderr_callable l | None \<Rightarrow> False) then
           let stdout = post_process_fh h (fst out);
               stderr = post_process_fh h (snd out)
           in (Inr (Some stdout),
               if \<not> strip_empty stderr then s\<lparr>trace := trace s @ [OnStderr stderr]\<rparr> else s)
         else (Inr (Some (post_process_fh h (fst out) @ post_process_fh h (snd out))), s))
      else (Inr None, s))"

text \<open>
  The \<open>else\<close> branch of the \<open>try\<close> statement, lines 263 to 289. The \<open>finally\<close> clause
  removes the handle whether \<open>proc.communicate\<close> returns or raises.
\<close>

definition communicate_else ::
  "host \<Rightarrow> state \<Rightarrow> nat \<Rightarrow> string list \<Rightarrow> bytes option \<Rightarrow> int \<Rightarrow> string option
    \<Rightarrow> linter option \<Rightarrow> view option \<Rightarrow> nat option \<Rightarrow> bool
    \<Rightarrow> (error + string option) \<times> state" where
  "communicate_else h s proc cmd code output_stream cwd lntr vw bid uses_stdin =
     (case (if info_enabled h then
              (case make_nice_log_message h ''Running ...'' cmd uses_stdin cwd vw None of
                 Inl e \<Rightarrow> Inl e
               | Inr msg \<Rightarrow> Inr (s\<lparr>trace := trace s @ [LogInfo msg]\<rparr>))
            else Inr s) of
        Inl e \<Rightarrow> (Inl e, s)
      | Inr s1 \<Rightarrow>
         (let s2 = active_procs_append bid proc s1;
              s3 = s2\<lparr>trace := trace s2 @ [Collect proc]\<rparr>
          in case proc_communicate h proc code of
               Inl msg \<Rightarrow>
                 (case active_procs_remove bid proc s3 of
                    Inl e \<Rightarrow> (Inl e, s3)
                  | Inr s4 \<Rightarrow> (Inl (CollectError msg), s4))
             | Inr out \<Rightarrow>
                 (case active_procs_remove bid proc s3 of
                    Inl e \<Rightarrow> (Inl e, s3)
                  | Inr s4 \<Rightarrow> communicate_return h s4 output_stream lntr out)))"

text \<open>Lines 231 and 232: \<open>if env is None: env = create_environment()\<close>.\<close>

definition communicate_env :: "host \<Rightarrow> state \<Rightarrow> envarg option \<Rightarrow> (error + envarg) \<times> state" where
  "communicate_env h s env =
     (case env of
        Some e \<Rightarrow> (Inr e, s)
      | None \<Rightarrow>
          (case create_environment h s of
             (Inl e, s') \<Rightarrow> (Inl e, s')
           | (Inr d, s') \<Rightarrow> (Inr (PlainEnv d), s')))"

text \<open>The arguments of \<open>subprocess.Popen\<close>, lines 241 to 248.\<close>

definition communicate_popen_args ::
  "host \<Rightarrow> string list \<Rightarrow> envarg \<Rightarrow> string option \<Rightarrow> bool \<Rightarrow> int \<Rightarrow> popen_args" where
  "communicate_popen_args h cmd env cwd uses_stdin output_stream =
     \<lparr>pa_cmd = cmd, pa_env = env, pa_cwd = cwd,
      pa_stdin = uses_stdin,
      pa_stdout = (output_stream AND STREAM_STDOUT \<noteq> 0),
      pa_stderr = (output_stream AND STREAM_STDERR \<noteq> 0),
      pa_startupinfo = create_startupinfo h,
      pa_creationflags = get_creationflags h\<rparr>"

text \<open>Line 236: \<open>view = _linter.view if _linter else None\<close>.\<close>

definition communicate_view :: "linter option \<Rightarrow> view option" where
  "communicate_view lntr = (case lntr of Some l \<Rightarrow> linter_view l | None \<Rightarrow> None)"

text \<open>Lines 219 to 289.\<close>

definition communicate ::
  "host \<Rightarrow> state \<Rightarrow> string list \<Rightarrow> string option \<Rightarrow> int \<Rightarrow> envarg option \<Rightarrow> string option
    \<Rightarrow> linter option \<Rightarrow> (error + string option) \<times> state" where
  "communicate h s cmd code output_stream env cwd lntr =
     (let code' = map_option (utf8_encode h) code
      in case communicate_env h s env of
           (Inl e, s1) \<Rightarrow> (Inl e, s1)
         | (Inr env', s1) \<Rightarrow>
            (let vw = communicate_view lntr;
                 bid = map_option buffer_id vw;
                 uses_stdin = (code' \<noteq> None)
             in case popen h (communicate_popen_args h cmd env' cwd uses_stdin output_stream) of
                  Inl err \<Rightarrow> communicate_except h s1 err cmd uses_stdin cwd vw env' lntr
                | Inr proc \<Rightarrow>
                    communicate_else h s1 proc cmd code' output_stream cwd lntr vw bid
                      uses_stdin))"

text \<open>
  The state in which \<open>communicate\<close> leaves the \<open>try\<close> statement of lines 271 to 275
  when it started it in \<open>s\<close> after logging \<open>logged\<close>: the handle appended and removed.
\<close>

definition collected_state :: "state \<Rightarrow> event list \<Rightarrow> nat option \<Rightarrow> nat \<Rightarrow> state" where
  "collected_state s logged bid proc =
     s\<lparr>active_procs := (active_procs s)(bid := remove1 proc (active_procs s bid @ [proc])),
       trace := trace s @ logged @ [Register bid proc, Collect proc, Deregister bid proc]\<rparr>"

text \<open>
  A sequence of the two registry operations of lines 269 and 275, for handles of any
  owners: it stops at the first \<open>ValueError\<close>.
\<close>

datatype registry_op = Append "nat option" nat | Remove "nat option" nat

fun active_procs_run :: "registry_op list \<Rightarrow> state \<Rightarrow> error + state" where
  "active_procs_run [] s = Inr s"
| "active_procs_run (Append bid proc # ops) s =
     active_procs_run ops (active_procs_append bid proc s)"
| "active_procs_run (Remove bid proc # ops) s =
     (case active_procs_remove bid proc s of
        Inl e \<Rightarrow> Inl e
      | Inr s' \<Rightarrow> active_procs_run ops s')"

text \<open>The handles a sequence appends, and those it removes, under one key.\<close>

fun appended :: "nat option \<Rightarrow> registry_op list \<Rightarrow> nat multiset" where
  "appended k [] = {#}"
| "appended k (Append bid proc # ops) =
     (if bid = k then {#proc#} else {#}) + appended k ops"
| "appended k (Remove bid proc # ops) = appended k ops"

fun removed :: "nat option \<Rightarrow> registry_op list \<Rightarrow> nat multiset" where
  "removed k [] = {#}"
| "removed k (Append bid proc # ops) = removed k ops"
| "removed k (Remove bid proc # ops) =
     (if bid = k then {#proc#} else {#}) + removed k ops"

text \<open>The arguments of the calls of the owner's \<open>on_stderr\<close> among the effects.\<close>

definition on_stderr_calls :: "event list \<Rightarrow> string list" where
  "on_stderr_calls tr = concat (map (\<lambda>e. case e of OnStderr t \<Rightarrow> [t] | _ \<Rightarrow> []) tr)"

section \<open>Example hosts\<close>

text \<open>
  A POSIX host for the examples below. \<open>posix_join\<close> is \<open>posixpath.join\<close> of two
  arguments and \<open>posix_splitext_ext\<close> is the second component of
  \<open>posixpath.splitext\<close>. The paths of the examples are absolute and normalised, so
  \<open>abspath\<close>, \<open>expanduser\<close> and \<open>relpath\<close> leave them alone; the texts are ASCII, where
  UTF-8 is the identity on the codes, and the preferred encoding is Latin-1, which
  decodes every byte. The child process writes its input between two colour sequences
  to its standard output and a warning to its standard error; its handle tells which
  pipes it was given.
\<close>

definition posix_join :: "string \<Rightarrow> string \<Rightarrow> string" where
  "posix_join a b =
     (if b \<noteq> [] \<and> hd b = CHR ''/'' then b
      else if a = [] \<or> last a = CHR ''/'' then a @ b
      else a @ ''/'' @ b)"

definition posix_splitext_ext :: "string \<Rightarrow> string" where
  "posix_splitext_ext p =
     (let name = rev (takeWhile (\<lambda>c. c \<noteq> CHR ''/'') (rev p));
          stem = dropWhile (\<lambda>c. c = CHR ''.'') name
      in if CHR ''.'' \<in> set stem
         then CHR ''.'' # rev (takeWhile (\<lambda>c. c \<noteq> CHR ''.'') (rev stem))
         else [])"

definition example_host :: host where
  "example_host =
     \<lparr>os_name = ''posix'', platform = ''linux'', pathsep = CHR '':'',
      paths_setting = [], info_enabled = False,
      abspath = (\<lambda>p. p), expanduser = (\<lambda>p. p),
      path_join = posix_join, splitext_ext = posix_splitext_ext,
      isfile = (\<lambda>p. p \<in> set [''/usr/bin/tool'', ''/opt/bin/lint.exe'']),
      access_x = (\<lambda>p. True),
      relpath = (\<lambda>p start. Some p), realpath_curdir = ''/'',
      textwrap_indent = (\<lambda>t prefix. prefix @ t),
      pformat_indented = (\<lambda>d. ''{...}''),
      utf8_encode = map of_char,
      utf8_decode = (\<lambda>b. if list_all (\<lambda>x. x < 128) b then Some (map char_of b) else None),
      locale_decode = map char_of,
      popen = (\<lambda>a. if pa_cmd a = [''nonexistent''] then Inl ''No such file or directory''
                    else Inr (of_bool (pa_stdout a) + 2 * of_bool (pa_stderr a))),
      proc_communicate = (\<lambda>p inp.
         Inr (if odd p
              then Some (map of_char (ESC # ''[31m'')
                         @ (case inp of Some b \<Rightarrow> b | None \<Rightarrow> [])
                         @ map of_char (ESC # ''[0m''))
              else None,
              if odd (p div 2) then Some (map of_char ''warning'') else None))\<rparr>"

definition example_state :: state where
  "example_state =
     \<lparr>environ = [(''HOME'', ''/home/u''), (''PATH'', ''/usr/bin:/opt/bin'')],
      active_procs = (\<lambda>bid. []), debug_print_env_cache = None, trace = []\<rparr>"

text \<open>
  A Windows host with the same library: \<open>ntpath.join\<close> of a directory that does not
  end in a separator and a relative name puts a backslash between them, and the second
  component of \<open>ntpath.splitext\<close> takes both separators. Its PATH is \<open>C:/tools;C:/bin\<close>.
\<close>

definition BACKSLASH :: char where
  "BACKSLASH = CHR 0x5C"

definition nt_splitext_ext :: "string \<Rightarrow> string" where
  "nt_splitext_ext p =
     (let name = rev (takeWhile (\<lambda>c. c \<noteq> CHR ''/'' \<and> c \<noteq> BACKSLASH) (rev p));
          stem = dropWhile (\<lambda>c. c = CHR ''.'') name
      in if CHR ''.'' \<in> set stem
         then CHR ''.'' # rev (takeWhile (\<lambda>c. c \<noteq> CHR ''.'') (rev stem))
         else [])"

definition windows_host :: host where
  "windows_host =
     example_host
       \<lparr>os_name := ''nt'', platform := ''windows'', pathsep := CHR '';'',
        path_join := (\<lambda>a b. a @ [BACKSLASH] @ b),
        splitext_ext := nt_splitext_ext,
        isfile := (\<lambda>p. p \<in> set [''C:/tools'' @ [BACKSLASH] @ ''lint.exe'',
                                 ''C:/bin'' @ [BACKSLASH] @ ''tool''])\<rparr>"

definition windows_state :: state where
  "windows_state = example_state\<lparr>environ := [(''PATH'', ''C:/tools;C:/bin'')]\<rparr>"

text \<open>An owner whose view shows the saved file \<open>/project/a.py\<close>.\<close>

definition example_linter :: linter where
  "example_linter =
     \<lparr>linter_view = Some \<lparr>buffer_id = 5, file_name = Some ''/project/a.py''\<rparr>,
      on_stderr_callable = True\<rparr>"

section \<open>Properties\<close>

subsection \<open>Stripping colour sequences\<close>

lemma ANSI_COLOR_RE_match_no_esc:
  "ESC \<notin> set s \<Longrightarrow> ANSI_COLOR_RE_match s = None"
  by (cases s rule: ANSI_COLOR_RE_match.cases) auto

lemma ANSI_COLOR_RE_sub_no_esc:
  "ESC \<notin> set s \<Longrightarrow> ANSI_COLOR_RE_sub s = s"
  by (induction s) (simp_all add: ANSI_COLOR_RE_match_no_esc)

lemma sgr_closed_sub_no_esc:
  "sgr_closed s \<Longrightarrow> ESC \<notin> set (ANSI_COLOR_RE_sub s)"
proof (induction s rule: ANSI_COLOR_RE_sub.induct)
  case 1
  then show ?case by simp
next
  case (2 c cs)
  then show ?case
    by (cases "ANSI_COLOR_RE_match (c # cs)") auto
qed

text \<open>
  C1, as stated, fails: one pass over ESC \<open>[\<close> ESC \<open>[31m\<close> \<open>m\<close> removes the inner
  sequence and leaves ESC \<open>[m\<close>, a sequence that the second pass removes.
\<close>

theorem ANSI_COLOR_RE_sub_not_idempotent:
  "ANSI_COLOR_RE_sub (ESC # ''['' @ ESC # ''[31mm'') = ESC # ''[m''
   \<and> ANSI_COLOR_RE_sub (ANSI_COLOR_RE_sub (ESC # ''['' @ ESC # ''[31mm'')) = []
   \<and> ANSI_COLOR_RE_sub (ANSI_COLOR_RE_sub (ESC # ''['' @ ESC # ''[31mm''))
       \<noteq> ANSI_COLOR_RE_sub (ESC # ''['' @ ESC # ''[31mm'')"
  by (simp add: ESC_def sgr_param_def)

text \<open>
  C1, amended: on every text in which each ESC starts a complete sequence
  ESC \<open>[\<close> parameters \<open>m\<close>, stripping is idempotent (no ESC is left after one pass);
  and stripping ESC \<open>[31m\<close> \<open>red\<close> ESC \<open>[0m\<close> gives \<open>red\<close>.
\<close>

theorem ANSI_COLOR_RE_sub_idempotent_closed:
  "(sgr_closed x \<longrightarrow> ANSI_COLOR_RE_sub (ANSI_COLOR_RE_sub x) = ANSI_COLOR_RE_sub x)
   \<and> ANSI_COLOR_RE_sub (ESC # ''[31mred'' @ ESC # ''[0m'') = ''red''"
proof
  show "sgr_closed x \<longrightarrow> ANSI_COLOR_RE_sub (ANSI_COLOR_RE_sub x) = ANSI_COLOR_RE_sub x"
    by (simp add: sgr_closed_sub_no_esc ANSI_COLOR_RE_sub_no_esc)
  show "ANSI_COLOR_RE_sub (ESC # ''[31mred'' @ ESC # ''[0m'') = ''red''"
    by (simp add: ESC_def sgr_param_def)
qed

theorem ANSI_COLOR_RE_sub_idempotent_closed_witness:
  "sgr_closed (ESC # ''[1;31mbold'' @ ESC # ''[0m'')
   \<and> ANSI_COLOR_RE_sub (ESC # ''[1;31mbold'' @ ESC # ''[0m'') = ''bold''
   \<and> ANSI_COLOR_RE_sub (ANSI_COLOR_RE_sub (ESC # ''[1;31mbold'' @ ESC # ''[0m''))
       = ANSI_COLOR_RE_sub (ESC # ''[1;31mbold'' @ ESC # ''[0m'')"
proof -
  have c: "sgr_closed (ESC # ''[1;31mbold'' @ ESC # ''[0m'')"
    by (simp add: ESC_def sgr_param_def)
  have v: "ANSI_COLOR_RE_sub (ESC # ''[1;31mbold'' @ ESC # ''[0m'') = ''bold''"
    by (simp add: ESC_def sgr_param_def)
  from c v ANSI_COLOR_RE_sub_idempotent_closed [of "ESC # ''[1;31mbold'' @ ESC # ''[0m''"]
  show ?thesis by blast
qed

subsection \<open>The log message\<close>

text \<open>
  C9 fails on the code: for a view with a file name, no working directory and input
  sent on standard input, \<open>make_nice_log_message\<close> raises \<open>UnboundLocalError\<close>, on
  every host.
\<close>

theorem make_nice_log_message_unbound:
  "make_nice_log_message h ''Running ...'' [''tool'', ''-''] True None
     (Some \<lparr>buffer_id = 5, file_name = Some ''/project/a.py''\<rparr>) None
   = Inl (UnboundLocalError ''rel_filename'')"
  by (simp add: make_nice_log_message_def)

subsection \<open>Facts about the example hosts\<close>

lemma example_create_environment:
  "create_environment example_host example_state = (Inr (environ example_state), example_state)"
  by (simp add: create_environment_def example_host_def example_state_def)

lemma example_PATH_entries:
  "PATH_entries example_host (environ example_state) = [''/usr/bin'', ''/opt/bin'']"
  by (simp add: PATH_entries_def example_host_def example_state_def)

lemma example_candidate:
  "candidate example_host name ''/usr/bin'' = posix_join ''/usr/bin'' name"
  "candidate example_host name ''/opt/bin'' = posix_join ''/opt/bin'' name"
  by (simp_all add: candidate_def example_host_def)

lemma example_can_exec:
  "can_exec example_host p = (p = ''/usr/bin/tool'' \<or> p = ''/opt/bin/lint.exe'')"
  by (simp add: can_exec_def example_host_def)

lemma example_platform: "platform example_host = ''linux''"
  by (simp add: example_host_def)

lemma windows_create_environment:
  "create_environment windows_host windows_state = (Inr (environ windows_state), windows_state)"
  by (simp add: create_environment_def windows_host_def windows_state_def
      example_host_def example_state_def)

lemma windows_PATH_entries:
  "PATH_entries windows_host (environ windows_state) = [''C:/tools'', ''C:/bin'']"
  by (simp add: PATH_entries_def windows_host_def windows_state_def
      example_host_def example_state_def)

lemma windows_candidate:
  "candidate windows_host name d = d @ [BACKSLASH] @ name"
  by (simp add: candidate_def windows_host_def example_host_def)

lemma windows_can_exec:
  "can_exec windows_host p =
     (p = ''C:/tools'' @ [BACKSLASH] @ ''lint.exe'' \<or> p = ''C:/bin'' @ [BACKSLASH] @ ''tool'')"
  by (simp add: can_exec_def windows_host_def example_host_def)

lemma windows_platform: "platform windows_host = ''windows''"
  by (simp add: windows_host_def example_host_def)

lemma windows_splitext:
  "splitext_ext windows_host p = nt_splitext_ext p"
  by (simp add: windows_host_def example_host_def)

lemma windows_find_tool:
  "find_executables_in windows_host ''tool'' ''C:/tools'' = []"
  "find_executables_in windows_host ''tool'' ''C:/bin'' = []"
  by (simp_all add: find_executables_in_def windows_candidate windows_can_exec
      windows_platform windows_splitext nt_splitext_ext_def BACKSLASH_def)

subsection \<open>Decoding\<close>

text \<open>
  C5: \<open>decode\<close> returns a string for every argument: the empty string for \<open>None\<close> and
  for the empty byte string, the UTF-8 decoding where the bytes are valid UTF-8, and
  otherwise the decoding in the preferred encoding with undecodable bytes replaced.
\<close>

theorem decode_cases:
  "decode h None = []
   \<and> decode h (Some []) = []
   \<and> (b \<noteq> [] \<longrightarrow> utf8_decode h b = Some t \<longrightarrow> decode h (Some b) = t)
   \<and> (b \<noteq> [] \<longrightarrow> utf8_decode h b = None \<longrightarrow> decode h (Some b) = locale_decode h b)"
  by (simp add: decode_def)

theorem decode_cases_witness:
  "utf8_decode example_host [104, 105] = Some ''hi''
   \<and> decode example_host (Some [104, 105]) = ''hi''
   \<and> utf8_decode example_host [195, 40] = None
   \<and> decode example_host (Some [195, 40]) = locale_decode example_host [195, 40]"
proof -
  have ok: "utf8_decode example_host [104, 105] = Some ''hi''"
    by code_simp
  have bad: "utf8_decode example_host [195, 40] = None"
    by code_simp
  from ok bad
    decode_cases [of example_host "[104, 105]" "''hi''"]
    decode_cases [of example_host "[195, 40]"]
  show ?thesis by simp
qed

subsection \<open>The environment\<close>

lemma create_environment_environ:
  "environ (snd (create_environment h s)) = environ s"
  by (simp add: create_environment_def debug_print_env_def Let_def
      split: option.splits sum.splits)

lemma map_of_update:
  "map_of (AList.update k v al) k' = (if k' = k then Some v else map_of al k')"
  by (simp add: update_conv')

text \<open>
  C2. For every inherited environment: \<open>create_environment\<close> never changes
  \<open>os.environ\<close>. With no "paths" entry for the platform, whatever it returns is the
  inherited environment, PATH included, and it does return when PATH is set. With the
  entry \<open>["/a", "/b"]\<close>, two paths that \<open>abspath\<close> and \<open>expanduser\<close> leave alone,
  whatever it returns has as PATH \<open>/a\<close>, the separator, \<open>/b\<close>, the separator and the
  inherited PATH, with every other variable as inherited, and it does return when PATH
  is set.
\<close>

theorem create_environment_PATH:
  "environ (snd (create_environment h s)) = environ s
   \<and> (map_of (paths_setting h) (platform h) = None \<longrightarrow>
        (\<forall>env. fst (create_environment h s) = Inr env \<longrightarrow> env = environ s)
        \<and> (map_of (environ s) ''PATH'' \<noteq> None \<longrightarrow>
             fst (create_environment h s) = Inr (environ s)))
   \<and> (map_of (paths_setting h) (platform h) = Some (StrList [''/a'', ''/b'']) \<longrightarrow>
       abspath h (expanduser h ''/a'') = ''/a'' \<longrightarrow>
       abspath h (expanduser h ''/b'') = ''/b'' \<longrightarrow>
        (\<forall>env. fst (create_environment h s) = Inr env \<longrightarrow>
           (\<exists>p. map_of (environ s) ''PATH'' = Some p
              \<and> map_of env ''PATH'' = Some (''/a'' @ [pathsep h] @ ''/b'' @ [pathsep h] @ p)
              \<and> (\<forall>k. k \<noteq> ''PATH'' \<longrightarrow> map_of env k = map_of (environ s) k)))
        \<and> (map_of (environ s) ''PATH'' \<noteq> None \<longrightarrow>
             (\<exists>env. fst (create_environment h s) = Inr env)))"
proof (intro conjI impI allI)
  show "environ (snd (create_environment h s)) = environ s"
    by (rule create_environment_environ)
next
  fix env
  assume "map_of (paths_setting h) (platform h) = None"
    and "fst (create_environment h s) = Inr env"
  then show "env = environ s"
    by (auto simp: create_environment_def Let_def split: option.splits if_splits)
next
  assume "map_of (paths_setting h) (platform h) = None"
    and "map_of (environ s) ''PATH'' \<noteq> None"
  then show "fst (create_environment h s) = Inr (environ s)"
    by (auto simp: create_environment_def Let_def)
next
  fix env
  assume "map_of (paths_setting h) (platform h) = Some (StrList [''/a'', ''/b''])"
    and "abspath h (expanduser h ''/a'') = ''/a''"
    and "abspath h (expanduser h ''/b'') = ''/b''"
    and "fst (create_environment h s) = Inr env"
  then show "\<exists>p. map_of (environ s) ''PATH'' = Some p
              \<and> map_of env ''PATH'' = Some (''/a'' @ [pathsep h] @ ''/b'' @ [pathsep h] @ p)
              \<and> (\<forall>k. k \<noteq> ''PATH'' \<longrightarrow> map_of env k = map_of (environ s) k)"
    by (auto simp: create_environment_def Let_def map_of_update
        split: option.splits if_splits)
next
  assume "map_of (paths_setting h) (platform h) = Some (StrList [''/a'', ''/b''])"
    and "map_of (environ s) ''PATH'' \<noteq> None"
  then show "\<exists>env. fst (create_environment h s) = Inr env"
    by (auto simp: create_environment_def Let_def map_of_update)
qed

theorem create_environment_PATH_witness:
  "map_of (paths_setting example_host) (platform example_host) = None
   \<and> map_of (environ example_state) ''PATH'' = Some ''/usr/bin:/opt/bin''
   \<and> fst (create_environment example_host example_state) = Inr (environ example_state)
   \<and> map_of (paths_setting (example_host\<lparr>paths_setting := [(''linux'', StrList [''/a'', ''/b''])]\<rparr>))
        (platform (example_host\<lparr>paths_setting := [(''linux'', StrList [''/a'', ''/b''])]\<rparr>))
       = Some (StrList [''/a'', ''/b''])
   \<and> (\<exists>env. fst (create_environment
                   (example_host\<lparr>paths_setting := [(''linux'', StrList [''/a'', ''/b''])]\<rparr>)
                   example_state) = Inr env
          \<and> map_of env ''PATH'' = Some ''/a:/b:/usr/bin:/opt/bin''
          \<and> map_of env ''HOME'' = Some ''/home/u'')
   \<and> environ (snd (create_environment
                   (example_host\<lparr>paths_setting := [(''linux'', StrList [''/a'', ''/b''])]\<rparr>)
                   example_state)) = environ example_state"
proof -
  let ?h = "example_host\<lparr>paths_setting := [(''linux'', StrList [''/a'', ''/b''])]\<rparr>"
  have a: "map_of (paths_setting example_host) (platform example_host) = None"
    by (simp add: example_host_def)
  have b: "map_of (environ example_state) ''PATH'' = Some ''/usr/bin:/opt/bin''"
    by (simp add: example_state_def)
  have c: "map_of (paths_setting ?h) (platform ?h) = Some (StrList [''/a'', ''/b''])"
    by (simp add: example_host_def)
  have d: "abspath ?h (expanduser ?h ''/a'') = ''/a''" "abspath ?h (expanduser ?h ''/b'') = ''/b''"
    by (simp_all add: example_host_def)
  have e: "pathsep ?h = CHR '':''"
    by (simp add: example_host_def)
  have f: "map_of (environ example_state) ''HOME'' = Some ''/home/u''"
    by (simp add: example_state_def)
  from b have b': "map_of (environ example_state) ''PATH'' \<noteq> None"
    by simp
  from create_environment_PATH [of example_host example_state] a b'
  have 1: "fst (create_environment example_host example_state) = Inr (environ example_state)"
    by blast
  from create_environment_PATH [of ?h example_state] b' c d
  have 2: "\<forall>env. fst (create_environment ?h example_state) = Inr env \<longrightarrow>
           (\<exists>p. map_of (environ example_state) ''PATH'' = Some p
              \<and> map_of env ''PATH'' = Some (''/a'' @ [pathsep ?h] @ ''/b'' @ [pathsep ?h] @ p)
              \<and> (\<forall>k. k \<noteq> ''PATH'' \<longrightarrow> map_of env k = map_of (environ example_state) k))"
    and 3: "\<exists>env. fst (create_environment ?h example_state) = Inr env"
    and 4: "environ (snd (create_environment ?h example_state)) = environ example_state"
    by blast+
  from 3 obtain env where env: "fst (create_environment ?h example_state) = Inr env"
    by blast
  with 2 b have "map_of env ''PATH'' = Some (''/a'' @ [pathsep ?h] @ ''/b'' @ [pathsep ?h] @ ''/usr/bin:/opt/bin'')"
    and rest: "\<forall>k. k \<noteq> ''PATH'' \<longrightarrow> map_of env k = map_of (environ example_state) k"
    by auto
  then have "map_of env ''PATH'' = Some ''/a:/b:/usr/bin:/opt/bin''"
    by (simp add: e)
  moreover from rest f have "map_of env ''HOME'' = Some ''/home/u''"
    by simp
  ultimately have 5: "\<exists>env. fst (create_environment ?h example_state) = Inr env
          \<and> map_of env ''PATH'' = Some ''/a:/b:/usr/bin:/opt/bin''
          \<and> map_of env ''HOME'' = Some ''/home/u''"
    using env by blast
  from a b 1 c 5 4 show ?thesis
    by (intro conjI)
qed

subsection \<open>Looking up executables\<close>

lemma find_executables_resolved:
  "create_environment h s = (Inr env, s') \<Longrightarrow>
   find_executables h s name =
     (Inr (concat (map (find_executables_in h name) (PATH_entries h env))), s')"
  by (simp add: find_executables_def)

lemma which_resolved:
  "create_environment h s = (Inr env, s') \<Longrightarrow>
   which h s name =
     (case concat (map (find_executables_in h name) (PATH_entries h env)) of
        [] \<Rightarrow> (Inr None, s')
      | path # _ \<Rightarrow> (Inr (Some path), s'))"
  by (simp add: which_def find_executables_resolved split: list.splits)

lemma find_executables_in_plain:
  "platform h \<noteq> ''windows'' \<or> splitext_ext h (candidate h name base) \<noteq> [] \<Longrightarrow>
   find_executables_in h name base =
     (if can_exec h (candidate h name base) then [candidate h name base] else [])"
  by (auto simp: find_executables_in_def Let_def)

lemma find_executables_in_windows:
  "platform h = ''windows'' \<Longrightarrow> splitext_ext h (candidate h name base) = [] \<Longrightarrow>
   find_executables_in h name base =
     filter (can_exec h)
       [candidate h name base @ ''.exe'', candidate h name base @ ''.cmd'',
        candidate h name base @ ''.bat'']"
  by (simp add: find_executables_in_def Let_def)

lemma concat_map_single:
  "concat (map (\<lambda>b. if P (f b) then [f b] else []) xs) = filter P (map f xs)"
  by (induction xs) auto

lemma filter_all_equal:
  assumes "d \<in> set xs" and "P (f d)"
    and "\<forall>b\<in>set xs. f b \<noteq> f d \<longrightarrow> \<not> P (f b)"
  shows "\<exists>rest. filter P (map f xs) = f d # rest"
proof -
  have "filter P (map f xs) \<noteq> []"
    using assms(1,2) by (auto simp: filter_empty_conv)
  then obtain y rest where yr: "filter P (map f xs) = y # rest"
    by (cases "filter P (map f xs)") auto
  then have "y \<in> set (filter P (map f xs))" by simp
  then obtain b where "b \<in> set xs" "y = f b" "P (f b)" by auto
  with assms(3) have "y = f d" by auto
  with yr show ?thesis by simp
qed

text \<open>
  C3, as stated, fails on Windows: the file \<open>tool\<close> is an executable regular file in
  exactly one directory of PATH, and \<open>which\<close> returns \<open>None\<close>, because for a candidate
  without an extension only its \<open>.exe\<close>, \<open>.cmd\<close> and \<open>.bat\<close> variants are probed.
\<close>

theorem which_windows_bare_file:
  "PATH_entries windows_host (environ windows_state) = [''C:/tools'', ''C:/bin'']
   \<and> can_exec windows_host (candidate windows_host ''tool'' ''C:/bin'')
   \<and> \<not> can_exec windows_host (candidate windows_host ''tool'' ''C:/tools'')
   \<and> which windows_host windows_state ''tool'' = (Inr None, windows_state)"
  by (simp add: which_def find_executables_def windows_create_environment
      windows_PATH_entries windows_find_tool windows_candidate windows_can_exec BACKSLASH_def)

text \<open>
  C3, amended. Where the environment is resolved: a name of which no directory of PATH
  holds an executable regular file (on Windows, nor one of its three variants) makes
  \<open>which\<close> return \<open>None\<close>; and where the platform is not Windows, or every candidate
  path has an extension, a name that is an executable regular file in exactly one
  directory of PATH makes \<open>which\<close> return the path of that file.
\<close>

theorem which_absent_or_unique:
  assumes "create_environment h s = (Inr env, s')"
  shows "((\<forall>b\<in>set (PATH_entries h env).
            \<not> can_exec h (candidate h name b)
            \<and> (platform h = ''windows'' \<longrightarrow>
                 \<not> can_exec h (candidate h name b @ ''.exe'')
                 \<and> \<not> can_exec h (candidate h name b @ ''.cmd'')
                 \<and> \<not> can_exec h (candidate h name b @ ''.bat'')))
          \<longrightarrow> which h s name = (Inr None, s'))
       \<and> ((platform h \<noteq> ''windows''
            \<or> (\<forall>b\<in>set (PATH_entries h env). splitext_ext h (candidate h name b) \<noteq> []))
          \<longrightarrow> d \<in> set (PATH_entries h env)
          \<longrightarrow> can_exec h (candidate h name d)
          \<longrightarrow> (\<forall>b\<in>set (PATH_entries h env).
                 candidate h name b \<noteq> candidate h name d \<longrightarrow> \<not> can_exec h (candidate h name b))
          \<longrightarrow> which h s name = (Inr (Some (candidate h name d)), s'))"
proof (intro conjI impI)
  assume absent: "\<forall>b\<in>set (PATH_entries h env).
            \<not> can_exec h (candidate h name b)
            \<and> (platform h = ''windows'' \<longrightarrow>
                 \<not> can_exec h (candidate h name b @ ''.exe'')
                 \<and> \<not> can_exec h (candidate h name b @ ''.cmd'')
                 \<and> \<not> can_exec h (candidate h name b @ ''.bat''))"
  have "find_executables_in h name b = []" if "b \<in> set (PATH_entries h env)" for b
  proof (cases "platform h = ''windows'' \<and> splitext_ext h (candidate h name b) = []")
    case True
    with absent that show ?thesis
      by (simp add: find_executables_in_windows)
  next
    case False
    then have "platform h \<noteq> ''windows'' \<or> splitext_ext h (candidate h name b) \<noteq> []"
      by blast
    from find_executables_in_plain [OF this] absent that show ?thesis
      by simp
  qed
  then have none: "concat (map (find_executables_in h name) (PATH_entries h env)) = []"
    by simp
  show "which h s name = (Inr None, s')"
    unfolding which_resolved [OF assms] none by simp
next
  assume plain: "platform h \<noteq> ''windows''
            \<or> (\<forall>b\<in>set (PATH_entries h env). splitext_ext h (candidate h name b) \<noteq> [])"
    and d: "d \<in> set (PATH_entries h env)" "can_exec h (candidate h name d)"
    and uniq: "\<forall>b\<in>set (PATH_entries h env).
                 candidate h name b \<noteq> candidate h name d \<longrightarrow> \<not> can_exec h (candidate h name b)"
  have "find_executables_in h name b =
          (if can_exec h (candidate h name b) then [candidate h name b] else [])"
    if "b \<in> set (PATH_entries h env)" for b
    using plain that by (intro find_executables_in_plain) blast
  then have "map (find_executables_in h name) (PATH_entries h env) =
      map (\<lambda>b. if can_exec h (candidate h name b) then [candidate h name b] else [])
        (PATH_entries h env)"
    by simp
  then have "concat (map (find_executables_in h name) (PATH_entries h env)) =
      filter (can_exec h) (map (candidate h name) (PATH_entries h env))"
    by (simp only: concat_map_single)
  moreover obtain rest where
    "filter (can_exec h) (map (candidate h name) (PATH_entries h env)) = candidate h name d # rest"
    using filter_all_equal [of d "PATH_entries h env" "can_exec h" "candidate h name"] d uniq
    by blast
  ultimately show "which h s name = (Inr (Some (candidate h name d)), s')"
    using assms by (simp add: which_resolved)
qed

theorem which_absent_or_unique_witness:
  "create_environment example_host example_state = (Inr (environ example_state), example_state)
   \<and> PATH_entries example_host (environ example_state) = [''/usr/bin'', ''/opt/bin'']
   \<and> platform example_host \<noteq> ''windows''
   \<and> can_exec example_host (candidate example_host ''tool'' ''/usr/bin'')
   \<and> \<not> can_exec example_host (candidate example_host ''tool'' ''/opt/bin'')
   \<and> which example_host example_state ''tool'' = (Inr (Some ''/usr/bin/tool''), example_state)
   \<and> \<not> can_exec example_host (candidate example_host ''nosuch'' ''/usr/bin'')
   \<and> \<not> can_exec example_host (candidate example_host ''nosuch'' ''/opt/bin'')
   \<and> which example_host example_state ''nosuch'' = (Inr None, example_state)"
proof -
  have p: "platform example_host \<noteq> ''windows''"
    by (simp add: example_platform)
  have t: "can_exec example_host (candidate example_host ''tool'' ''/usr/bin'')"
    "\<not> can_exec example_host (candidate example_host ''tool'' ''/opt/bin'')"
    "candidate example_host ''tool'' ''/usr/bin'' = ''/usr/bin/tool''"
    by (simp_all add: example_candidate example_can_exec posix_join_def)
  have n: "\<not> can_exec example_host (candidate example_host ''nosuch'' ''/usr/bin'')"
    "\<not> can_exec example_host (candidate example_host ''nosuch'' ''/opt/bin'')"
    by (simp_all add: example_candidate example_can_exec posix_join_def)
  from which_absent_or_unique [OF example_create_environment, of "''tool''" "''/usr/bin''"] p t
  have 1: "which example_host example_state ''tool'' = (Inr (Some ''/usr/bin/tool''), example_state)"
    by (simp add: example_PATH_entries)
  from which_absent_or_unique [OF example_create_environment, of "''nosuch''"] p n
  have 2: "which example_host example_state ''nosuch'' = (Inr None, example_state)"
    by (simp add: example_PATH_entries)
  from example_create_environment example_PATH_entries p t(1,2) 1 n 2 show ?thesis
    by (intro conjI)
qed

text \<open>
  C4. On Windows, for a candidate path without an extension, \<open>find_executables\<close> yields
  those of candidate + \<open>.exe\<close>, \<open>.cmd\<close>, \<open>.bat\<close>, in this order, that are executable
  regular files. So where a directory of PATH holds the name with \<open>.exe\<close> and no
  directory holds the name itself, the search yields the \<open>.exe\<close> file on Windows and
  nothing on another platform.
\<close>

theorem find_executables_windows_probe:
  assumes "create_environment h s = (Inr env, s')"
  shows "(platform h = ''windows'' \<longrightarrow> splitext_ext h (candidate h name base) = [] \<longrightarrow>
            find_executables_in h name base =
              filter (can_exec h)
                [candidate h name base @ ''.exe'', candidate h name base @ ''.cmd'',
                 candidate h name base @ ''.bat''])
       \<and> (d \<in> set (PATH_entries h env) \<longrightarrow>
          can_exec h (candidate h name d @ ''.exe'') \<longrightarrow>
          (\<forall>b\<in>set (PATH_entries h env). \<not> can_exec h (candidate h name b)) \<longrightarrow>
            (platform h = ''windows'' \<longrightarrow> splitext_ext h (candidate h name d) = [] \<longrightarrow>
               (\<exists>paths. find_executables h s name = (Inr paths, s')
                  \<and> candidate h name d @ ''.exe'' \<in> set paths))
            \<and> (platform h \<noteq> ''windows'' \<longrightarrow> find_executables h s name = (Inr [], s')))"
proof (intro conjI impI)
  assume "platform h = ''windows''" "splitext_ext h (candidate h name base) = []"
  then show "find_executables_in h name base =
              filter (can_exec h)
                [candidate h name base @ ''.exe'', candidate h name base @ ''.cmd'',
                 candidate h name base @ ''.bat'']"
    by (rule find_executables_in_windows)
next
  assume d: "d \<in> set (PATH_entries h env)" "can_exec h (candidate h name d @ ''.exe'')"
    and w: "platform h = ''windows''" "splitext_ext h (candidate h name d) = []"
  have "candidate h name d @ ''.exe'' \<in> set (find_executables_in h name d)"
    using d(2) w by (simp add: find_executables_in_windows)
  with d(1) have "candidate h name d @ ''.exe''
      \<in> set (concat (map (find_executables_in h name) (PATH_entries h env)))"
    by auto
  with assms show "\<exists>paths. find_executables h s name = (Inr paths, s')
                  \<and> candidate h name d @ ''.exe'' \<in> set paths"
    by (simp add: find_executables_resolved)
next
  assume none: "\<forall>b\<in>set (PATH_entries h env). \<not> can_exec h (candidate h name b)"
    and nw: "platform h \<noteq> ''windows''"
  have "find_executables_in h name b = []" if "b \<in> set (PATH_entries h env)" for b
    using find_executables_in_plain [of h name b] nw none that by simp
  then have "concat (map (find_executables_in h name) (PATH_entries h env)) = []"
    by simp
  with assms show "find_executables h s name = (Inr [], s')"
    by (simp add: find_executables_resolved)
qed

theorem find_executables_windows_probe_witness:
  "create_environment windows_host windows_state = (Inr (environ windows_state), windows_state)
   \<and> PATH_entries windows_host (environ windows_state) = [''C:/tools'', ''C:/bin'']
   \<and> platform windows_host = ''windows''
   \<and> splitext_ext windows_host (candidate windows_host ''lint'' ''C:/tools'') = []
   \<and> can_exec windows_host (candidate windows_host ''lint'' ''C:/tools'' @ ''.exe'')
   \<and> \<not> can_exec windows_host (candidate windows_host ''lint'' ''C:/tools'')
   \<and> \<not> can_exec windows_host (candidate windows_host ''lint'' ''C:/bin'')
   \<and> find_executables_in windows_host ''lint'' ''C:/tools''
       = [''C:/tools'' @ [BACKSLASH] @ ''lint.exe'']
   \<and> (\<exists>paths. find_executables windows_host windows_state ''lint'' = (Inr paths, windows_state)
         \<and> ''C:/tools'' @ [BACKSLASH] @ ''lint.exe'' \<in> set paths)
   \<and> create_environment example_host example_state = (Inr (environ example_state), example_state)
   \<and> platform example_host \<noteq> ''windows''
   \<and> can_exec example_host (candidate example_host ''lint'' ''/opt/bin'' @ ''.exe'')
   \<and> \<not> can_exec example_host (candidate example_host ''lint'' ''/usr/bin'')
   \<and> \<not> can_exec example_host (candidate example_host ''lint'' ''/opt/bin'')
   \<and> find_executables example_host example_state ''lint'' = (Inr [], example_state)"
proof -
  have wx: "splitext_ext windows_host (candidate windows_host ''lint'' ''C:/tools'') = []"
    by (simp add: windows_splitext windows_candidate nt_splitext_ext_def BACKSLASH_def)
  have wc: "can_exec windows_host (candidate windows_host ''lint'' ''C:/tools'' @ ''.exe'')"
    "\<not> can_exec windows_host (candidate windows_host ''lint'' ''C:/tools'')"
    "\<not> can_exec windows_host (candidate windows_host ''lint'' ''C:/bin'')"
    "\<not> can_exec windows_host (candidate windows_host ''lint'' ''C:/tools'' @ ''.cmd'')"
    "\<not> can_exec windows_host (candidate windows_host ''lint'' ''C:/tools'' @ ''.bat'')"
    "candidate windows_host ''lint'' ''C:/tools'' @ ''.exe'' = ''C:/tools'' @ [BACKSLASH] @ ''lint.exe''"
    by (simp_all add: windows_candidate windows_can_exec BACKSLASH_def)
  note w = find_executables_windows_probe [OF windows_create_environment,
      of "''lint''" "''C:/tools''" "''C:/tools''"]
  from w windows_platform wx wc
  have 1: "find_executables_in windows_host ''lint'' ''C:/tools''
       = [''C:/tools'' @ [BACKSLASH] @ ''lint.exe'']"
    by simp
  from w windows_platform wx wc
  have 2: "\<exists>paths. find_executables windows_host windows_state ''lint'' = (Inr paths, windows_state)
         \<and> ''C:/tools'' @ [BACKSLASH] @ ''lint.exe'' \<in> set paths"
    by (simp add: windows_PATH_entries)
  have p: "platform example_host \<noteq> ''windows''"
    by (simp add: example_platform)
  have ec: "can_exec example_host (candidate example_host ''lint'' ''/opt/bin'' @ ''.exe'')"
    "\<not> can_exec example_host (candidate example_host ''lint'' ''/usr/bin'')"
    "\<not> can_exec example_host (candidate example_host ''lint'' ''/opt/bin'')"
    by (simp_all add: example_candidate example_can_exec posix_join_def)
  from find_executables_windows_probe [OF example_create_environment,
      of "''lint''" "''/opt/bin''" "''/opt/bin''"] p ec
  have 3: "find_executables example_host example_state ''lint'' = (Inr [], example_state)"
    by (simp add: example_PATH_entries)
  from windows_create_environment windows_PATH_entries windows_platform wx wc(1,2,3) 1 2
    example_create_environment p ec 3
  show ?thesis
    by (intro conjI)
qed


subsection \<open>Running a command\<close>

lemma communicate_launched:
  assumes "communicate_env h s env = (Inr env', s1)"
    and "popen h (communicate_popen_args h cmd env' cwd (code \<noteq> None) output_stream) = Inr proc"
  shows "communicate h s cmd code output_stream env cwd lntr =
           communicate_else h s1 proc cmd (map_option (utf8_encode h) code) output_stream cwd
             lntr (communicate_view lntr) (map_option buffer_id (communicate_view lntr))
             (code \<noteq> None)"
  using assms by (simp add: communicate_def Let_def)

lemma communicate_not_launched:
  assumes "communicate_env h s env = (Inr env', s1)"
    and "popen h (communicate_popen_args h cmd env' cwd (code \<noteq> None) output_stream) = Inl err"
  shows "communicate h s cmd code output_stream env cwd lntr =
           communicate_except h s1 err cmd (code \<noteq> None) cwd (communicate_view lntr) env' lntr"
  using assms by (simp add: communicate_def Let_def)

text \<open>
  The handle that was appended is there to be removed: the \<open>finally\<close> clause never
  raises \<open>ValueError\<close>, and the three registry events follow each other.
\<close>

lemma active_procs_remove_appended:
  "active_procs_remove bid proc
     ((active_procs_append bid proc s)\<lparr>trace := trace (active_procs_append bid proc s) @ [Collect proc]\<rparr>)
   = Inr (s\<lparr>active_procs := (active_procs s)(bid := remove1 proc (active_procs s bid @ [proc])),
            trace := trace s @ [Register bid proc, Collect proc, Deregister bid proc]\<rparr>)"
  by (simp add: active_procs_remove_def active_procs_append_def)

lemma remove1_append_fresh:
  "proc \<notin> set xs \<Longrightarrow> remove1 proc (xs @ [proc]) = xs"
  by (induction xs) auto

lemma mset_remove1_append:
  "mset (remove1 proc (xs @ [proc])) = mset xs"
  by simp

lemma communicate_else_quiet:
  assumes "\<not> info_enabled h"
  shows "communicate_else h s proc cmd code output_stream cwd lntr vw bid uses_stdin =
     (case proc_communicate h proc code of
        Inl msg \<Rightarrow> (Inl (CollectError msg), collected_state s [] bid proc)
      | Inr out \<Rightarrow> communicate_return h (collected_state s [] bid proc) output_stream lntr out)"
  using assms
  by (simp add: communicate_else_def Let_def active_procs_remove_appended collected_state_def
      split: sum.splits)

lemma communicate_else_logged:
  assumes "info_enabled h"
    and "make_nice_log_message h ''Running ...'' cmd uses_stdin cwd vw None = Inr msg"
  shows "communicate_else h s proc cmd code output_stream cwd lntr vw bid uses_stdin =
     (case proc_communicate h proc code of
        Inl e \<Rightarrow> (Inl (CollectError e), collected_state s [LogInfo msg] bid proc)
      | Inr out \<Rightarrow>
          communicate_return h (collected_state s [LogInfo msg] bid proc) output_stream lntr out)"
proof -
  let ?s1 = "s\<lparr>trace := trace s @ [LogInfo msg]\<rparr>"
  have "active_procs_remove bid proc
     ((active_procs_append bid proc ?s1)\<lparr>trace := trace (active_procs_append bid proc ?s1) @ [Collect proc]\<rparr>)
     = Inr (collected_state s [LogInfo msg] bid proc)"
    by (simp add: active_procs_remove_appended collected_state_def)
  with assms show ?thesis
    by (simp add: communicate_else_def Let_def split: sum.splits)
qed

lemma communicate_else_log_raises:
  assumes "info_enabled h"
    and "make_nice_log_message h ''Running ...'' cmd uses_stdin cwd vw None = Inl e"
  shows "communicate_else h s proc cmd code output_stream cwd lntr vw bid uses_stdin = (Inl e, s)"
  using assms by (simp add: communicate_else_def)

text \<open>
  What the \<open>else\<close> branch does when the log message of line 265 is formatted (or not
  asked for): the result is decided by \<open>proc.communicate\<close> and lines 277 to 289, in a
  state whose registry has the handle appended and removed again.
\<close>

lemma communicate_else_collected:
  assumes "info_enabled h \<longrightarrow>
             \<not> isl (make_nice_log_message h ''Running ...'' cmd uses_stdin cwd vw None)"
  shows "\<exists>logged. (\<forall>e \<in> set logged. \<exists>m. e = LogInfo m) \<and>
     communicate_else h s proc cmd code output_stream cwd lntr vw bid uses_stdin =
       (case proc_communicate h proc code of
          Inl e \<Rightarrow> (Inl (CollectError e), collected_state s logged bid proc)
        | Inr out \<Rightarrow>
            communicate_return h (collected_state s logged bid proc) output_stream lntr out)"
proof (cases "info_enabled h")
  case False
  from communicate_else_quiet [OF this] show ?thesis
    by (intro exI [of _ "[]"]) simp
next
  case True
  with assms obtain msg where
    "make_nice_log_message h ''Running ...'' cmd uses_stdin cwd vw None = Inr msg"
    by (cases "make_nice_log_message h ''Running ...'' cmd uses_stdin cwd vw None") auto
  from communicate_else_logged [OF True this] show ?thesis
    by (intro exI [of _ "[LogInfo msg]"]) simp
qed

lemma on_stderr_calls_append:
  "on_stderr_calls (xs @ ys) = on_stderr_calls xs @ on_stderr_calls ys"
  by (simp add: on_stderr_calls_def)

lemma on_stderr_calls_simps:
  "on_stderr_calls [] = []"
  "on_stderr_calls (OnStderr t # tr) = t # on_stderr_calls tr"
  "on_stderr_calls (LogInfo m # tr) = on_stderr_calls tr"
  "on_stderr_calls (LogError m # tr) = on_stderr_calls tr"
  "on_stderr_calls (NotifyFailure # tr) = on_stderr_calls tr"
  "on_stderr_calls (Register b p # tr) = on_stderr_calls tr"
  "on_stderr_calls (Collect p # tr) = on_stderr_calls tr"
  "on_stderr_calls (Deregister b p # tr) = on_stderr_calls tr"
  by (simp_all add: on_stderr_calls_def)

lemma on_stderr_calls_logged:
  "\<forall>e \<in> set logged. \<exists>m. e = LogInfo m \<Longrightarrow> on_stderr_calls logged = []"
  by (induction logged) (auto simp: on_stderr_calls_simps)

lemma on_stderr_calls_collected:
  "\<forall>e \<in> set logged. \<exists>m. e = LogInfo m \<Longrightarrow>
   on_stderr_calls (trace (collected_state s logged bid proc)) = on_stderr_calls (trace s)"
  by (simp add: collected_state_def on_stderr_calls_append on_stderr_calls_logged
      on_stderr_calls_simps)

lemma on_stderr_calls_debug_print_env:
  "on_stderr_calls (trace (debug_print_env h p s)) = on_stderr_calls (trace s)"
  by (simp add: debug_print_env_def on_stderr_calls_append on_stderr_calls_simps)

lemma on_stderr_calls_communicate_env:
  "communicate_env h s env = (r, s1) \<Longrightarrow> on_stderr_calls (trace s1) = on_stderr_calls (trace s)"
  by (auto simp: communicate_env_def create_environment_def Let_def
      on_stderr_calls_debug_print_env
      split: option.splits sum.splits if_splits prod.splits)

text \<open>
  Where the log message of the handler is formatted, a failed launch is logged, the
  owner is notified once, and the empty string is returned.
\<close>

lemma communicate_except_logged:
  assumes "make_nice_log_message h (''  Execution failed'' @ [NL, NL] @ ''  '' @ err)
             cmd uses_stdin cwd vw (augmented_env env) = Inr msg"
  shows "communicate_except h s err cmd uses_stdin cwd vw env lntr =
           (Inr (Some []),
            s\<lparr>trace := trace s @ LogError msg # (if lntr \<noteq> None then [NotifyFailure] else [])\<rparr>)"
  using assms by (simp add: communicate_except_def)

text \<open>
  C7. In a successful run (the environment is resolved, the process is launched, the
  log message of line 265 is formatted where it is asked for, and \<open>proc.communicate\<close>
  returns the streams \<open>out\<close> and \<open>err\<close>): for \<open>STREAM_STDOUT\<close> the result is the
  post-processed \<open>out\<close>, for \<open>STREAM_STDERR\<close> the post-processed \<open>err\<close>; for
  \<open>STREAM_BOTH\<close> and an owner with a callable \<open>on_stderr\<close>, the result is the
  post-processed \<open>out\<close> alone and \<open>on_stderr\<close> is called with the post-processed
  \<open>err\<close> exactly when that is not blank; for \<open>STREAM_BOTH\<close> otherwise, the result is
  both texts concatenated and \<open>on_stderr\<close> is not called.
\<close>

theorem communicate_result_selection:
  assumes env: "communicate_env h s env = (Inr env', s1)"
    and launch: "popen h (communicate_popen_args h cmd env' cwd (code \<noteq> None) output_stream)
                   = Inr proc"
    and log: "info_enabled h \<longrightarrow>
                \<not> isl (make_nice_log_message h ''Running ...'' cmd (code \<noteq> None) cwd
                        (communicate_view lntr) None)"
    and collect: "proc_communicate h proc (map_option (utf8_encode h) code) = Inr (out, err)"
  shows "(output_stream = STREAM_STDOUT \<longrightarrow>
            fst (communicate h s cmd code output_stream env cwd lntr)
              = Inr (Some (post_process_fh h out)))
       \<and> (output_stream = STREAM_STDERR \<longrightarrow>
            fst (communicate h s cmd code output_stream env cwd lntr)
              = Inr (Some (post_process_fh h err)))
       \<and> (output_stream = STREAM_BOTH \<longrightarrow> (\<exists>l. lntr = Some l \<and> on_stderr_callable l) \<longrightarrow>
            fst (communicate h s cmd code output_stream env cwd lntr)
              = Inr (Some (post_process_fh h out))
            \<and> on_stderr_calls (trace (snd (communicate h s cmd code output_stream env cwd lntr)))
              = on_stderr_calls (trace s)
                @ (if strip_empty (post_process_fh h err) then [] else [post_process_fh h err]))
       \<and> (output_stream = STREAM_BOTH \<longrightarrow> \<not> (\<exists>l. lntr = Some l \<and> on_stderr_callable l) \<longrightarrow>
            fst (communicate h s cmd code output_stream env cwd lntr)
              = Inr (Some (post_process_fh h out @ post_process_fh h err))
            \<and> on_stderr_calls (trace (snd (communicate h s cmd code output_stream env cwd lntr)))
              = on_stderr_calls (trace s))"
proof -
  let ?vw = "communicate_view lntr"
  from communicate_else_collected [OF log, of s1 proc "map_option (utf8_encode h) code"
      output_stream lntr "map_option buffer_id ?vw"] collect
  obtain logged where logged: "\<forall>e \<in> set logged. \<exists>m. e = LogInfo m"
    and run: "communicate_else h s1 proc cmd (map_option (utf8_encode h) code) output_stream cwd
                lntr ?vw (map_option buffer_id ?vw) (code \<noteq> None)
              = communicate_return h (collected_state s1 logged (map_option buffer_id ?vw) proc)
                  output_stream lntr (out, err)"
    by auto
  let ?s4 = "collected_state s1 logged (map_option buffer_id ?vw) proc"
  have c: "communicate h s cmd code output_stream env cwd lntr
             = communicate_return h ?s4 output_stream lntr (out, err)"
    by (simp only: communicate_launched [OF env launch] run)
  have t: "on_stderr_calls (trace ?s4) = on_stderr_calls (trace s)"
    by (simp add: on_stderr_calls_collected [OF logged] on_stderr_calls_communicate_env [OF env])
  have 1: "output_stream = STREAM_STDOUT \<longrightarrow>
            fst (communicate h s cmd code output_stream env cwd lntr)
              = Inr (Some (post_process_fh h out))"
    unfolding c by (simp add: communicate_return_def)
  have 2: "output_stream = STREAM_STDERR \<longrightarrow>
            fst (communicate h s cmd code output_stream env cwd lntr)
              = Inr (Some (post_process_fh h err))"
    unfolding c by (simp add: communicate_return_def STREAM_STDOUT_def STREAM_STDERR_def)
  have 3: "output_stream = STREAM_BOTH \<longrightarrow> (\<exists>l. lntr = Some l \<and> on_stderr_callable l) \<longrightarrow>
            fst (communicate h s cmd code output_stream env cwd lntr)
              = Inr (Some (post_process_fh h out))
            \<and> on_stderr_calls (trace (snd (communicate h s cmd code output_stream env cwd lntr)))
              = on_stderr_calls (trace s)
                @ (if strip_empty (post_process_fh h err) then [] else [post_process_fh h err])"
    using t unfolding c
    by (auto simp: communicate_return_def STREAM_STDOUT_def STREAM_STDERR_def
        STREAM_BOTH_def Let_def on_stderr_calls_append on_stderr_calls_simps)
  have 4: "output_stream = STREAM_BOTH \<longrightarrow> \<not> (\<exists>l. lntr = Some l \<and> on_stderr_callable l) \<longrightarrow>
            fst (communicate h s cmd code output_stream env cwd lntr)
              = Inr (Some (post_process_fh h out @ post_process_fh h err))
            \<and> on_stderr_calls (trace (snd (communicate h s cmd code output_stream env cwd lntr)))
              = on_stderr_calls (trace s)"
    using t unfolding c
    by (auto simp: communicate_return_def STREAM_STDOUT_def STREAM_STDERR_def
        STREAM_BOTH_def split: option.splits)
  from 1 2 3 4 show ?thesis
    by (intro conjI)
qed

lemma example_communicate_env:
  "communicate_env h example_state (Some (PlainEnv [])) = (Inr (PlainEnv []), example_state)"
  by (simp add: communicate_env_def)

lemma example_quiet: "\<not> info_enabled example_host"
  by (simp add: example_host_def)

lemma example_post_process_fh:
  "post_process_fh example_host (Some [27, 91, 51, 49, 109, 114, 101, 100, 27, 91, 48, 109]) = ''red''"
  "post_process_fh example_host (Some [119, 97, 114, 110, 105, 110, 103]) = ''warning''"
  "post_process_fh example_host None = []"
  by code_simp+

theorem communicate_result_selection_witness:
  "communicate_env example_host example_state (Some (PlainEnv []))
     = (Inr (PlainEnv []), example_state)
   \<and> popen example_host
       (communicate_popen_args example_host [''tool''] (PlainEnv []) (Some ''/project'')
          (Some ''red'' \<noteq> None) STREAM_BOTH) = Inr 3
   \<and> \<not> info_enabled example_host
   \<and> proc_communicate example_host 3 (map_option (utf8_encode example_host) (Some ''red''))
       = Inr (Some [27, 91, 51, 49, 109, 114, 101, 100, 27, 91, 48, 109],
              Some [119, 97, 114, 110, 105, 110, 103])
   \<and> on_stderr_callable example_linter
   \<and> \<not> strip_empty ''warning''
   \<and> fst (communicate example_host example_state [''tool''] (Some ''red'') STREAM_BOTH
            (Some (PlainEnv [])) (Some ''/project'') (Some example_linter)) = Inr (Some ''red'')
   \<and> on_stderr_calls (trace (snd (communicate example_host example_state [''tool'']
            (Some ''red'') STREAM_BOTH (Some (PlainEnv [])) (Some ''/project'')
            (Some example_linter)))) = [''warning'']
   \<and> popen example_host
       (communicate_popen_args example_host [''tool''] (PlainEnv []) (Some ''/project'')
          (Some ''red'' \<noteq> None) STREAM_STDOUT) = Inr 1
   \<and> proc_communicate example_host 1 (map_option (utf8_encode example_host) (Some ''red''))
       = Inr (Some [27, 91, 51, 49, 109, 114, 101, 100, 27, 91, 48, 109], None)
   \<and> fst (communicate example_host example_state [''tool''] (Some ''red'') STREAM_STDOUT
            (Some (PlainEnv [])) (Some ''/project'') (Some example_linter)) = Inr (Some ''red'')"
proof -
  have l3: "popen example_host
       (communicate_popen_args example_host [''tool''] (PlainEnv []) (Some ''/project'')
          (Some ''red'' \<noteq> None) STREAM_BOTH) = Inr 3"
    by code_simp
  have l1: "popen example_host
       (communicate_popen_args example_host [''tool''] (PlainEnv []) (Some ''/project'')
          (Some ''red'' \<noteq> None) STREAM_STDOUT) = Inr 1"
    by code_simp
  have c3: "proc_communicate example_host 3 (map_option (utf8_encode example_host) (Some ''red''))
       = Inr (Some [27, 91, 51, 49, 109, 114, 101, 100, 27, 91, 48, 109],
              Some [119, 97, 114, 110, 105, 110, 103])"
    by code_simp
  have c1: "proc_communicate example_host 1 (map_option (utf8_encode example_host) (Some ''red''))
       = Inr (Some [27, 91, 51, 49, 109, 114, 101, 100, 27, 91, 48, 109], None)"
    by code_simp
  have cb: "on_stderr_callable example_linter"
    by (simp add: example_linter_def)
  have nb: "\<not> strip_empty ''warning''"
    by code_simp
  have tr: "on_stderr_calls (trace example_state) = []"
    by (simp add: example_state_def on_stderr_calls_simps)
  note both = communicate_result_selection [OF example_communicate_env l3 _ c3,
      of "Some example_linter"]
  note only = communicate_result_selection [OF example_communicate_env l1 _ c1,
      of "Some example_linter"]
  from both example_quiet cb
  have r3: "fst (communicate example_host example_state [''tool''] (Some ''red'') STREAM_BOTH
            (Some (PlainEnv [])) (Some ''/project'') (Some example_linter)) = Inr (Some ''red'')"
    and t3: "on_stderr_calls (trace (snd (communicate example_host example_state [''tool'']
            (Some ''red'') STREAM_BOTH (Some (PlainEnv [])) (Some ''/project'')
            (Some example_linter)))) = [''warning'']"
    by (simp_all add: example_post_process_fh nb tr)
  from only example_quiet
  have r1: "fst (communicate example_host example_state [''tool''] (Some ''red'') STREAM_STDOUT
            (Some (PlainEnv [])) (Some ''/project'') (Some example_linter)) = Inr (Some ''red'')"
    by (simp add: example_post_process_fh)
  from example_communicate_env l3 example_quiet c3 cb nb r3 t3 l1 c1 r1 show ?thesis
    by (intro conjI)
qed

text \<open>
  C10. For an \<open>output_stream\<close> that is none of \<open>STREAM_STDOUT\<close>, \<open>STREAM_STDERR\<close> and
  \<open>STREAM_BOTH\<close>, a run whose launch succeeds never returns a string: where it reaches
  lines 277 to 289 (the log message is formatted and \<open>proc.communicate\<close> returns), no
  branch returns and the value is \<open>None\<close>.
\<close>

theorem communicate_other_selector:
  assumes env: "communicate_env h s env = (Inr env', s1)"
    and launch: "popen h (communicate_popen_args h cmd env' cwd (code \<noteq> None) output_stream)
                   = Inr proc"
    and other: "output_stream \<noteq> STREAM_STDOUT" "output_stream \<noteq> STREAM_STDERR"
      "output_stream \<noteq> STREAM_BOTH"
  shows "(\<forall>t. fst (communicate h s cmd code output_stream env cwd lntr) \<noteq> Inr (Some t))
       \<and> ((info_enabled h \<longrightarrow>
              \<not> isl (make_nice_log_message h ''Running ...'' cmd (code \<noteq> None) cwd
                      (communicate_view lntr) None)) \<longrightarrow>
           proc_communicate h proc (map_option (utf8_encode h) code) = Inr out \<longrightarrow>
           fst (communicate h s cmd code output_stream env cwd lntr) = Inr None)"
proof (intro conjI allI impI)
  fix t
  show "fst (communicate h s cmd code output_stream env cwd lntr) \<noteq> Inr (Some t)"
    using other
    by (simp add: communicate_launched [OF env launch] communicate_else_def Let_def
        communicate_return_def active_procs_remove_appended split: sum.splits)
next
  assume log: "info_enabled h \<longrightarrow>
              \<not> isl (make_nice_log_message h ''Running ...'' cmd (code \<noteq> None) cwd
                      (communicate_view lntr) None)"
    and collect: "proc_communicate h proc (map_option (utf8_encode h) code) = Inr out"
  from communicate_else_collected [OF log, of s1 proc "map_option (utf8_encode h) code"
      output_stream lntr "map_option buffer_id (communicate_view lntr)"] collect other
  show "fst (communicate h s cmd code output_stream env cwd lntr) = Inr None"
    by (auto simp: communicate_launched [OF env launch] communicate_return_def)
qed

theorem communicate_other_selector_witness:
  "communicate_env example_host example_state (Some (PlainEnv []))
     = (Inr (PlainEnv []), example_state)
   \<and> popen example_host
       (communicate_popen_args example_host [''tool''] (PlainEnv []) None (None \<noteq> None) 0)
       = Inr 0
   \<and> (0 :: int) \<noteq> STREAM_STDOUT \<and> (0 :: int) \<noteq> STREAM_STDERR \<and> (0 :: int) \<noteq> STREAM_BOTH
   \<and> \<not> info_enabled example_host
   \<and> proc_communicate example_host 0 (map_option (utf8_encode example_host) None)
       = Inr (None, None)
   \<and> fst (communicate example_host example_state [''tool''] None 0 (Some (PlainEnv [])) None None)
       = Inr None"
proof -
  have l: "popen example_host
       (communicate_popen_args example_host [''tool''] (PlainEnv []) None (None \<noteq> None) 0)
       = Inr 0"
    by code_simp
  have o: "(0 :: int) \<noteq> STREAM_STDOUT" "(0 :: int) \<noteq> STREAM_STDERR" "(0 :: int) \<noteq> STREAM_BOTH"
    by (simp_all add: STREAM_STDOUT_def STREAM_STDERR_def STREAM_BOTH_def)
  have c: "proc_communicate example_host 0 (map_option (utf8_encode example_host) None)
       = Inr (None, None)"
    by code_simp
  from communicate_other_selector [OF example_communicate_env l o, of None "(None, None)"]
    example_quiet c
  have "fst (communicate example_host example_state [''tool''] None 0 (Some (PlainEnv [])) None None)
       = Inr None"
    by simp
  with example_communicate_env l o example_quiet c show ?thesis
    by (intro conjI)
qed

text \<open>
  C6 fails on the code. The launch of \<open>nonexistent\<close> fails; the owner's view has a file
  name, no working directory is given and input is sent on standard input, so the
  message for \<open>logger.error\<close> cannot be formatted: \<open>UnboundLocalError\<close> leaves
  \<open>communicate\<close>, nothing is logged and the owner is not notified.
\<close>

theorem communicate_launch_failure_raises:
  "popen example_host
     (communicate_popen_args example_host [''nonexistent''] (PlainEnv []) None True STREAM_STDOUT)
     = Inl ''No such file or directory''
   \<and> communicate example_host example_state [''nonexistent''] (Some ''x'') STREAM_STDOUT
       (Some (PlainEnv [])) None (Some example_linter)
     = (Inl (UnboundLocalError ''rel_filename''), example_state)
   \<and> trace example_state = []"
proof -
  have l: "popen example_host
     (communicate_popen_args example_host [''nonexistent''] (PlainEnv []) None True STREAM_STDOUT)
     = Inl ''No such file or directory''"
    by code_simp
  have v: "communicate_view (Some example_linter)
             = Some \<lparr>buffer_id = 5, file_name = Some ''/project/a.py''\<rparr>"
    by (simp add: communicate_view_def example_linter_def)
  from l have "communicate example_host example_state [''nonexistent''] (Some ''x'') STREAM_STDOUT
       (Some (PlainEnv [])) None (Some example_linter)
     = (Inl (UnboundLocalError ''rel_filename''), example_state)"
    by (simp add: communicate_def communicate_env_def Let_def v communicate_except_def
        make_nice_log_message_def)
  with l show ?thesis
    by (simp add: example_state_def)
qed

subsection \<open>The registry\<close>

lemma communicate_return_active_procs:
  "active_procs (snd (communicate_return h s output_stream lntr out)) = active_procs s"
  by (simp add: communicate_return_def Let_def)

text \<open>
  Where the log message of line 265 is formatted (or not asked for), a run that
  launched a fresh handle leaves the registry as it found it, whether
  \<open>proc.communicate\<close> returns or raises.
\<close>

lemma communicate_else_restores_registry:
  assumes "info_enabled h \<longrightarrow>
             \<not> isl (make_nice_log_message h ''Running ...'' cmd uses_stdin cwd vw None)"
    and "proc \<notin> set (active_procs s bid)"
  shows "active_procs
           (snd (communicate_else h s proc cmd code output_stream cwd lntr vw bid uses_stdin))
         = active_procs s"
proof -
  from communicate_else_collected [OF assms(1), of s proc code output_stream lntr bid]
  obtain logged where
    "communicate_else h s proc cmd code output_stream cwd lntr vw bid uses_stdin =
       (case proc_communicate h proc code of
          Inl e \<Rightarrow> (Inl (CollectError e), collected_state s logged bid proc)
        | Inr out \<Rightarrow>
            communicate_return h (collected_state s logged bid proc) output_stream lntr out)"
    by blast
  moreover have "active_procs (collected_state s logged bid proc) = active_procs s"
    using assms(2) by (simp add: collected_state_def remove1_append_fresh)
  ultimately show ?thesis
    by (simp add: communicate_return_active_procs split: sum.splits)
qed

lemma active_procs_append_mset:
  "mset (active_procs (active_procs_append bid proc s) k)
     = mset (active_procs s k) + (if bid = k then {#proc#} else {#})"
  by (simp add: active_procs_append_def)

lemma active_procs_remove_mset:
  "active_procs_remove bid proc s = Inr s' \<Longrightarrow>
   mset (active_procs s' k) = mset (active_procs s k) - (if bid = k then {#proc#} else {#})
   \<and> (bid = k \<longrightarrow> proc \<in># mset (active_procs s k))"
  by (auto simp: active_procs_remove_def split: if_splits)

text \<open>
  A sequence of appends and removes that never removes a handle that is not there (it
  runs without \<open>ValueError\<close>) leaves under every key, as a multiset, what was there
  and what was appended, less what was removed.
\<close>

lemma active_procs_run_mset:
  "active_procs_run ops s = Inr s' \<Longrightarrow>
   mset (active_procs s' k) + removed k ops = mset (active_procs s k) + appended k ops"
proof (induction ops s rule: active_procs_run.induct)
  case (1 s)
  then show ?case by simp
next
  case (2 bid proc ops s)
  then show ?case
    by (simp add: active_procs_append_mset)
next
  case (3 bid proc ops s)
  from "3.prems" obtain s1 where
    s1: "active_procs_remove bid proc s = Inr s1" and run: "active_procs_run ops s1 = Inr s'"
    by (auto split: sum.splits)
  from "3.IH" [OF s1 run]
  have ih: "mset (active_procs s' k) + removed k ops = mset (active_procs s1 k) + appended k ops" .
  show ?case
  proof (cases "bid = k")
    case True
    with active_procs_remove_mset [OF s1, of k]
    have "mset (active_procs s1 k) + {#proc#} = mset (active_procs s k)"
      by simp
    with ih True show ?thesis
      by (simp add: ac_simps)
  next
    case False
    with active_procs_remove_mset [OF s1, of k] ih show ?thesis
      by simp
  qed
qed

text \<open>
  C8 fails on the code. With the logger enabled for INFO the launch of \<open>tool\<close>
  succeeds, and the same \<open>UnboundLocalError\<close>, raised at line 265 before line 268,
  leaves \<open>communicate\<close>: the handle of the child is never registered.
\<close>

theorem communicate_launched_not_registered:
  "popen (example_host\<lparr>info_enabled := True\<rparr>)
     (communicate_popen_args (example_host\<lparr>info_enabled := True\<rparr>) [''tool''] (PlainEnv [])
        None True STREAM_STDOUT)
     = Inr 1
   \<and> communicate (example_host\<lparr>info_enabled := True\<rparr>) example_state [''tool''] (Some ''x'')
       STREAM_STDOUT (Some (PlainEnv [])) None (Some example_linter)
     = (Inl (UnboundLocalError ''rel_filename''), example_state)
   \<and> trace example_state = []"
proof -
  let ?h = "example_host\<lparr>info_enabled := True\<rparr>"
  have l: "popen ?h (communicate_popen_args ?h [''tool''] (PlainEnv []) None True STREAM_STDOUT)
     = Inr 1"
    by code_simp
  have v: "communicate_view (Some example_linter)
             = Some \<lparr>buffer_id = 5, file_name = Some ''/project/a.py''\<rparr>"
    by (simp add: communicate_view_def example_linter_def)
  from l have "communicate ?h example_state [''tool''] (Some ''x'') STREAM_STDOUT
       (Some (PlainEnv [])) None (Some example_linter)
     = (Inl (UnboundLocalError ''rel_filename''), example_state)"
    by (simp add: communicate_def communicate_env_def Let_def v communicate_else_def
        make_nice_log_message_def)
  with l show ?thesis
    by (simp add: example_state_def)
qed


end
